theory Spec2Isabelle
  imports Main "HOL-Library.Word"
begin

section \<open>The authorization-code grant of node-oauth2-server-ts\<close>

text \<open>
  A shallow embedding of \<^verbatim>\<open>src/lib/grant-types/authorization-code-grant-type.ts\<close>:
  the class \<^verbatim>\<open>AuthorizationCodeGrantType\<close> with its constructor and its methods
  \<^verbatim>\<open>handle\<close>, \<^verbatim>\<open>getAuthorizationCode\<close>, \<^verbatim>\<open>validateRedirectUri\<close>,
  \<^verbatim>\<open>revokeAuthorizationCode\<close> and \<^verbatim>\<open>saveToken\<close>.

  JavaScript values are modelled by their runtime shape where the code inspects it:
  a property that may be \<^verbatim>\<open>undefined\<close> or \<^verbatim>\<open>null\<close> is an \<open>option\<close>, a string is
  truthy iff it is not empty, and \<^verbatim>\<open>expiresAt\<close> is \<open>None\<close> when it is not a
  \<^verbatim>\<open>Date\<close> instance. Every \<^verbatim>\<open>throw\<close> is an \<open>Inl\<close> result; every \<^verbatim>\<open>await\<close> of a
  callee outside the file threads an abstract world \<open>'w\<close> and records the call, with
  its arguments and its outcome, in a trace.
\<close>

subsection \<open>Data model\<close>

text \<open>The error classes of \<^verbatim>\<open>../errors\<close> that the file throws, each with its message.
  \<open>TypeError\<close> is what the runtime raises when a value that is not a function is
  called; its string names the method, the text of the message being the engine's;
  \<open>Thrown x\<close> is an exception \<open>x\<close> raised inside an awaited callee outside the file,
  which propagates through the method unchanged.\<close>

type_synonym thrown = string

datatype error =
    InvalidArgumentError string
  | InvalidGrantError string
  | InvalidRequestError string
  | ServerError string
  | TypeError string
  | Thrown thrown

text \<open>A \<^verbatim>\<open>Date\<close> object: \<open>getTime\<close> is its time value in milliseconds, \<open>None\<close> for an
  invalid date (\<^verbatim>\<open>NaN\<close>).\<close>

datatype date = Date (getTime: "int option")

record client =
  client_id :: string

text \<open>The record the storage collaborator returns for a code. \<open>'u\<close> is the type of
  users, which the grant passes through without looking inside.\<close>

record 'u authorization_code =
  authorizationCode :: string
  expiresAt :: "date option"
  redirectUri :: "string option"
  scope :: "string option"
  client :: "client option"
  user :: "'u option"
  codeChallenge :: "string option"
  codeChallengeMethod :: "string option"

text \<open>The object literal that \<^verbatim>\<open>saveToken\<close> assembles (lines 220 to 227).\<close>

record token =
  accessToken :: string
  token_authorizationCode :: string
  accessTokenExpiresAt :: date
  refreshToken :: string
  refreshTokenExpiresAt :: date
  token_scope :: "string option"

text \<open>The fields of \<^verbatim>\<open>request.body\<close> and \<^verbatim>\<open>request.query\<close> that the file reads.\<close>

record params =
  code :: "string option"
  code_verifier :: "string option"
  redirect_uri :: "string option"

record request =
  body :: params
  query :: params

subsection \<open>Effects: world, trace and exceptions\<close>

text \<open>One entry per call that leaves the file: the arguments and the outcome.\<close>

datatype 'u event =
    Call_getAuthorizationCode string "thrown + 'u authorization_code option"
  | Call_revokeAuthorizationCode "'u authorization_code" "thrown + bool"
  | Call_validateScope "'u option" client "string option" "thrown + string option"
  | Call_generateAccessToken client "'u option" "string option" "thrown + string"
  | Call_generateRefreshToken client "'u option" "string option" "thrown + string"
  | Call_saveToken token client "'u option" "thrown + token"

text \<open>An awaited callee: it reads and changes the world and returns or throws.\<close>

type_synonym ('a, 'w) callee = "'w \<Rightarrow> (thrown + 'a) \<times> 'w"

text \<open>A method of the class: result or error, the new world, the calls made.\<close>

type_synonym ('a, 'u, 'w) io = "'w \<Rightarrow> (error + 'a) \<times> 'w \<times> 'u event list"

definition return :: "'a \<Rightarrow> ('a, 'u, 'w) io" where
  "return a w = (Inr a, w, [])"

definition throw :: "error \<Rightarrow> ('a, 'u, 'w) io" where
  "throw e w = (Inl e, w, [])"

definition bind :: "('a, 'u, 'w) io \<Rightarrow> ('a \<Rightarrow> ('b, 'u, 'w) io) \<Rightarrow> ('b, 'u, 'w) io" where
  "bind m f w =
     (case m w of
        (Inl e, w1, t1) \<Rightarrow> (Inl e, w1, t1)
      | (Inr a, w1, t1) \<Rightarrow> (case f a w1 of (r, w2, t2) \<Rightarrow> (r, w2, t1 @ t2)))"

definition await :: "((thrown + 'a) \<Rightarrow> 'u event) \<Rightarrow> ('a, 'w) callee \<Rightarrow> ('a, 'u, 'w) io" where
  "await ev f w =
     (case f w of
        (Inl x, w1) \<Rightarrow> (Inl (Thrown x), w1, [ev (Inl x)])
      | (Inr a, w1) \<Rightarrow> (Inr a, w1, [ev (Inr a)]))"

definition lift :: "error + 'a \<Rightarrow> ('a, 'u, 'w) io" where
  "lift r w = (r, w, [])"

subsection \<open>The collaborators\<close>

text \<open>The value of a property that is meant to hold a method. The options are untyped
  (\<^verbatim>\<open>options: any\<close>), so the value may be falsy (\<^verbatim>\<open>undefined\<close>, \<^verbatim>\<open>null\<close>, \<^verbatim>\<open>0\<close>, the empty
  string), truthy without being a function (a string, a number, an object), or a
  function.\<close>

datatype 'f capability = Falsy | NotAFunction | Function 'f

text \<open>\<^verbatim>\<open>options.model\<close>: the storage collaborator, with the three properties that the
  class reads.\<close>

record ('u, 'w) model =
  m_getAuthorizationCode ::
    "(string \<Rightarrow> ('u authorization_code option, 'w) callee) capability"
  m_revokeAuthorizationCode ::
    "('u authorization_code \<Rightarrow> (bool, 'w) callee) capability"
  m_saveToken ::
    "(token \<Rightarrow> client \<Rightarrow> 'u option \<Rightarrow> (token, 'w) callee) capability"

record ('u, 'w) options =
  opt_model :: "('u, 'w) model option"

text \<open>\<^verbatim>\<open>this\<close>: the fields and methods that the class inherits from
  \<^verbatim>\<open>AbstractGrantType\<close>, which is not part of the file and is taken as given.\<close>

record ('u, 'w) grant =
  model :: "('u, 'w) model option"
  validateScope :: "'u option \<Rightarrow> client \<Rightarrow> string option \<Rightarrow> (string option, 'w) callee"
  generateAccessToken :: "client \<Rightarrow> 'u option \<Rightarrow> string option \<Rightarrow> (string, 'w) callee"
  generateRefreshToken :: "client \<Rightarrow> 'u option \<Rightarrow> string option \<Rightarrow> (string, 'w) callee"
  getAccessTokenExpiresAt :: "'w \<Rightarrow> date"
  getRefreshTokenExpiresAt :: "'w \<Rightarrow> date"

text \<open>What the file imports and the runtime provides: \<^verbatim>\<open>is.vschar\<close>, \<^verbatim>\<open>is.uri\<close>
  (which may be handed \<^verbatim>\<open>undefined\<close>), the SHA-256 digest of a string's bytes, and
  the clock \<^verbatim>\<open>Date.now()\<close>.\<close>

record 'w env =
  is_vschar :: "string \<Rightarrow> bool"
  is_uri :: "string option \<Rightarrow> bool"
  sha256 :: "string \<Rightarrow> 8 word list"
  Date_now :: "'w \<Rightarrow> int"

text \<open>Modelled from the spec: \<^verbatim>\<open>stringUtil.base64URLEncode\<close> of \<^verbatim>\<open>../utils/string-util\<close>,
  which is not among the sources. The spec says: unpadded base64 with the URL-safe
  alphabet. Three bytes give four symbols; a rest of two bytes gives three symbols and
  a rest of one byte gives two, with no \<^verbatim>\<open>=\<close> appended. First, the alphabet.\<close>

definition base64url_alphabet :: string where
  "base64url_alphabet =
     ''ABCDEFGHIJKLMNOPQRSTUVWXYZabcdefghijklmnopqrstuvwxyz0123456789-_''"

text \<open>Modelled from the spec: the symbol of a six-bit group, part of the absent
  \<^verbatim>\<open>stringUtil.base64URLEncode\<close>.\<close>

definition base64url_symbol :: "nat \<Rightarrow> char" where
  "base64url_symbol k = base64url_alphabet ! (k mod 64)"

text \<open>Modelled from the spec: the absent \<^verbatim>\<open>stringUtil.base64URLEncode\<close> itself, on the
  bytes of the digest.\<close>

fun base64URLEncode :: "8 word list \<Rightarrow> string" where
  "base64URLEncode (a # b # c # rest) =
     (let n = unat a * 65536 + unat b * 256 + unat c
      in base64url_symbol (n div 262144) # base64url_symbol (n div 4096) #
         base64url_symbol (n div 64) # base64url_symbol n # base64URLEncode rest)"
| "base64URLEncode [a, b] =
     (let n = unat a * 1024 + unat b * 4
      in [base64url_symbol (n div 4096), base64url_symbol (n div 64), base64url_symbol n])"
| "base64URLEncode [a] =
     (let n = unat a * 16
      in [base64url_symbol (n div 64), base64url_symbol n])"
| "base64URLEncode [] = []"

subsection \<open>JavaScript operators\<close>

text \<open>Truthiness of a value that is a string, \<^verbatim>\<open>undefined\<close> or \<^verbatim>\<open>null\<close>.\<close>

definition truthy :: "string option \<Rightarrow> bool" where
  "truthy v = (case v of None \<Rightarrow> False | Some s \<Rightarrow> s \<noteq> [])"

text \<open>\<^verbatim>\<open>a || b\<close>.\<close>

definition js_or :: "string option \<Rightarrow> string option \<Rightarrow> string option" where
  "js_or a b = (if truthy a then a else b)"

text \<open>\<^verbatim>\<open>d.getTime() < n\<close>: a comparison with \<^verbatim>\<open>NaN\<close> is false.\<close>

definition time_less :: "date \<Rightarrow> int \<Rightarrow> bool" where
  "time_less d n = (case getTime d of None \<Rightarrow> False | Some t \<Rightarrow> t < n)"

text \<open>Truthiness of such a property: \<^verbatim>\<open>!p\<close> is \<open>\<not> present p\<close>.\<close>

definition present :: "'f capability \<Rightarrow> bool" where
  "present p = (case p of Falsy \<Rightarrow> False | NotAFunction \<Rightarrow> True | Function _ \<Rightarrow> True)"

text \<open>\<^verbatim>\<open>this.model.f\<close> for a call: a \<^verbatim>\<open>TypeError\<close> when \<^verbatim>\<open>this.model\<close> is not there or
  the property is anything but a function.\<close>

definition model_method ::
  "('u, 'w) grant \<Rightarrow> (('u, 'w) model \<Rightarrow> 'f capability) \<Rightarrow> string \<Rightarrow> error + 'f" where
  "model_method this sel name =
     (case model this of
        None \<Rightarrow> Inl (TypeError name)
      | Some m \<Rightarrow>
          (case sel m of
             Falsy \<Rightarrow> Inl (TypeError name)
           | NotAFunction \<Rightarrow> Inl (TypeError name)
           | Function f \<Rightarrow> Inr f))"

subsection \<open>The class\<close>

text \<open>The constructor (lines 15 to 38). \<open>super\<close> is the constructor of
  \<^verbatim>\<open>AbstractGrantType\<close>, which builds \<^verbatim>\<open>this\<close> or throws. Each test is one of
  truthiness: a property that is truthy passes, function or not.\<close>

definition "constructor" ::
  "(('u, 'w) options \<Rightarrow> error + ('u, 'w) grant) \<Rightarrow> ('u, 'w) options \<Rightarrow> error + ('u, 'w) grant" where
  "constructor super opts =
     (case super opts of
        Inl e \<Rightarrow> Inl e
      | Inr this \<Rightarrow>
          (case opt_model opts of
             None \<Rightarrow> Inl (InvalidArgumentError ''Missing parameter: `model`'')
           | Some m \<Rightarrow>
               if \<not> present (m_getAuthorizationCode m) then
                 Inl (InvalidArgumentError
                   ''Invalid argument: model does not implement `getAuthorizationCode()`'')
               else if \<not> present (m_revokeAuthorizationCode m) then
                 Inl (InvalidArgumentError
                   ''Invalid argument: model does not implement `revokeAuthorizationCode()`'')
               else if \<not> present (m_saveToken m) then
                 Inl (InvalidArgumentError
                   ''Invalid argument: model does not implement `saveToken()`'')
               else Inr this))"

text \<open>\<^verbatim>\<open>getAuthorizationCode\<close> (lines 70 to 150), in three parts: the \<^verbatim>\<open>switch\<close> of lines
  128 to 137, which computes \<^verbatim>\<open>hash\<close> or throws; the checks on the fetched record, lines
  86 to 149, which await nothing and read the clock of the world \<open>w\<close> they run in; and
  the method itself, which checks the request, awaits the lookup and runs the checks.\<close>

definition pkce_hash :: "'w env \<Rightarrow> string option \<Rightarrow> string \<Rightarrow> error + string" where
  "pkce_hash env meth verifier =
     (if meth = Some ''plain'' then Inr verifier
      else if meth = Some ''S256'' then Inr (base64URLEncode (sha256 env verifier))
      else Inl (ServerError
        ''Server error: `getAuthorizationCode()` did not return a valid `codeChallengeMethod` property''))"

definition getAuthorizationCode_checks ::
  "'w env \<Rightarrow> request \<Rightarrow> client \<Rightarrow> 'w \<Rightarrow> 'u authorization_code \<Rightarrow> error + 'u authorization_code" where
  "getAuthorizationCode_checks env req cl w ac =
     (case client ac of
        None \<Rightarrow> Inl (ServerError
          ''Server error: `getAuthorizationCode()` did not return a `client` object'')
      | Some cc \<Rightarrow>
     if user ac = None then
       Inl (ServerError ''Server error: `getAuthorizationCode()` did not return a `user` object'')
     else if client_id cc \<noteq> client_id cl then
       Inl (InvalidGrantError ''Invalid grant: authorization code is invalid'')
     else
     (case expiresAt ac of
        None \<Rightarrow> Inl (ServerError ''Server error: `expiresAt` must be a Date instance'')
      | Some d \<Rightarrow>
     if time_less d (Date_now env w) then
       Inl (InvalidGrantError ''Invalid grant: authorization code has expired'')
     else if truthy (redirectUri ac) \<and> \<not> is_uri env (redirectUri ac) then
       Inl (InvalidGrantError ''Invalid grant: `redirect_uri` is not a valid URI'')
     else if truthy (codeChallenge ac) then
       (case code_verifier (body req) of
          None \<Rightarrow> Inl (InvalidGrantError ''Missing parameter: `code_verifier`'')
        | Some verifier \<Rightarrow>
       if verifier = [] then Inl (InvalidGrantError ''Missing parameter: `code_verifier`'')
       else
         (case pkce_hash env (codeChallengeMethod ac) verifier of
            Inl e \<Rightarrow> Inl e
          | Inr hash \<Rightarrow>
              if codeChallenge ac \<noteq> Some hash then
                Inl (InvalidGrantError ''Invalid grant: code verifier is invalid'')
              else Inr ac))
     else if truthy (code_verifier (body req)) then
       Inl (InvalidGrantError ''Invalid grant: code verifier is invalid'')
     else Inr ac))"

definition getAuthorizationCode ::
  "'w env \<Rightarrow> ('u, 'w) grant \<Rightarrow> request \<Rightarrow> client \<Rightarrow> ('u authorization_code, 'u, 'w) io" where
  "getAuthorizationCode env this req cl =
     (case code (body req) of
        None \<Rightarrow> throw (InvalidRequestError ''Missing parameter: `code`'')
      | Some cstr \<Rightarrow>
     if cstr = [] then throw (InvalidRequestError ''Missing parameter: `code`'')
     else if \<not> is_vschar env cstr then throw (InvalidRequestError ''Invalid parameter: `code`'')
     else
       bind (lift (model_method this m_getAuthorizationCode ''getAuthorizationCode'')) (\<lambda>f.
       bind (await (Call_getAuthorizationCode cstr) (f cstr)) (\<lambda>fetched.
       case fetched of
         None \<Rightarrow> throw (InvalidGrantError ''Invalid grant: authorization code is invalid'')
       | Some ac \<Rightarrow> (\<lambda>w. lift (getAuthorizationCode_checks env req cl w ac) w))))"

text \<open>\<^verbatim>\<open>validateRedirectUri\<close> (lines 163 to 181): it awaits nothing.\<close>

definition validateRedirectUri :: "'w env \<Rightarrow> request \<Rightarrow> 'u authorization_code \<Rightarrow> error + unit" where
  "validateRedirectUri env req ac =
     (if \<not> truthy (redirectUri ac) then Inr ()
      else
        let redirectUri' = js_or (redirect_uri (body req)) (redirect_uri (query req))
        in if \<not> is_uri env redirectUri' then
             Inl (InvalidRequestError ''Invalid request: `redirect_uri` is not a valid URI'')
           else if redirectUri' \<noteq> redirectUri ac then
             Inl (InvalidRequestError ''Invalid request: `redirect_uri` is invalid'')
           else Inr ())"

text \<open>\<^verbatim>\<open>revokeAuthorizationCode\<close> (lines 193 to 202).\<close>

definition revokeAuthorizationCode ::
  "('u, 'w) grant \<Rightarrow> 'u authorization_code \<Rightarrow> ('u authorization_code, 'u, 'w) io" where
  "revokeAuthorizationCode this ac =
     bind (lift (model_method this m_revokeAuthorizationCode ''revokeAuthorizationCode'')) (\<lambda>f.
     bind (await (Call_revokeAuthorizationCode ac) (f ac)) (\<lambda>status.
     if \<not> status then throw (InvalidGrantError ''Invalid grant: authorization code is invalid'')
     else return ac))"

text \<open>\<^verbatim>\<open>saveToken\<close> (lines 208 to 230).\<close>

definition saveToken ::
  "('u, 'w) grant \<Rightarrow> 'u option \<Rightarrow> client \<Rightarrow> string \<Rightarrow> string option \<Rightarrow> (token, 'u, 'w) io" where
  "saveToken this usr cl authCode sc =
     bind (await (Call_validateScope usr cl sc) (validateScope this usr cl sc)) (\<lambda>accessScope.
     bind (await (Call_generateAccessToken cl usr sc) (generateAccessToken this cl usr sc)) (\<lambda>at.
     bind (await (Call_generateRefreshToken cl usr sc) (generateRefreshToken this cl usr sc)) (\<lambda>rt.
     (\<lambda>w.
       (let tok = \<lparr> accessToken = at,
                    token_authorizationCode = authCode,
                    accessTokenExpiresAt = getAccessTokenExpiresAt this w,
                    refreshToken = rt,
                    refreshTokenExpiresAt = getRefreshTokenExpiresAt this w,
                    token_scope = accessScope \<rparr>
        in bind (lift (model_method this m_saveToken ''saveToken'')) (\<lambda>f.
           await (Call_saveToken tok cl usr) (f tok cl usr))) w))))"

text \<open>\<^verbatim>\<open>handle\<close> (lines 46 to 64). A missing \<^verbatim>\<open>request\<close> or \<^verbatim>\<open>client\<close> is \<open>None\<close>.\<close>

definition handle ::
  "'w env \<Rightarrow> ('u, 'w) grant \<Rightarrow> request option \<Rightarrow> client option \<Rightarrow> (token, 'u, 'w) io" where
  "handle env this request cl_opt =
     (case request of
        None \<Rightarrow> throw (InvalidArgumentError ''Missing parameter: `request`'')
      | Some req \<Rightarrow>
     (case cl_opt of
        None \<Rightarrow> throw (InvalidArgumentError ''Missing parameter: `client`'')
      | Some cl \<Rightarrow>
          bind (getAuthorizationCode env this req cl) (\<lambda>ac.
          bind (lift (validateRedirectUri env req ac)) (\<lambda>_.
          bind (revokeAuthorizationCode this ac) (\<lambda>_.
          saveToken this (user ac) cl (authorizationCode ac) (scope ac))))))"


subsection \<open>Notions used in the statements\<close>

text \<open>The request passes the checks of lines 71 to 78, the lookup of line 79 runs in
  world \<open>w\<close>, returns the record \<open>ac\<close> and leaves the world \<open>w1\<close>.\<close>

definition fetches ::
  "'w env \<Rightarrow> ('u, 'w) grant \<Rightarrow> request \<Rightarrow> 'w \<Rightarrow> string \<Rightarrow> 'u authorization_code \<Rightarrow> 'w \<Rightarrow> bool" where
  "fetches env this req w cstr ac w1 =
     (code (body req) = Some cstr \<and> cstr \<noteq> [] \<and> is_vschar env cstr \<and>
      (case model_method this m_getAuthorizationCode ''getAuthorizationCode'' of
         Inl _ \<Rightarrow> False
       | Inr f \<Rightarrow> f cstr w = (Inr (Some ac), w1)))"


text \<open>The record passes every check of lines 86 to 120, the ones before PKCE, when
  the clock reads \<open>n\<close>.\<close>

definition passes_record_checks :: "'w env \<Rightarrow> client \<Rightarrow> int \<Rightarrow> 'u authorization_code \<Rightarrow> bool" where
  "passes_record_checks env cl n ac =
     ((case client ac of None \<Rightarrow> False | Some cc \<Rightarrow> client_id cc = client_id cl) \<and>
      user ac \<noteq> None \<and>
      (case expiresAt ac of None \<Rightarrow> False | Some d \<Rightarrow> \<not> time_less d n) \<and>
      (\<not> truthy (redirectUri ac) \<or> is_uri env (redirectUri ac)))"





definition is_InvalidGrantError :: "error + 'a \<Rightarrow> bool" where
  "is_InvalidGrantError r = (case r of Inl (InvalidGrantError _) \<Rightarrow> True | _ \<Rightarrow> False)"

definition is_InvalidRequestError :: "error + 'a \<Rightarrow> bool" where
  "is_InvalidRequestError r = (case r of Inl (InvalidRequestError _) \<Rightarrow> True | _ \<Rightarrow> False)"


definition is_TypeError :: "error + 'a \<Rightarrow> bool" where
  "is_TypeError r = (case r of Inl (TypeError _) \<Rightarrow> True | _ \<Rightarrow> False)"




text \<open>Calls that issue or persist a token.\<close>

fun is_saveToken_call :: "'u event \<Rightarrow> bool" where
  "is_saveToken_call (Call_saveToken _ _ _ _) = True"
| "is_saveToken_call _ = False"

fun issues_token :: "'u event \<Rightarrow> bool" where
  "issues_token (Call_generateAccessToken _ _ _ _) = True"
| "issues_token (Call_generateRefreshToken _ _ _ _) = True"
| "issues_token (Call_saveToken _ _ _ _) = True"
| "issues_token _ = False"

subsection \<open>An in-memory collaborator for the examples\<close>

text \<open>A store that keeps one code record, the codes consumed so far and the tokens
  persisted so far; a clock; a scope policy that narrows every request to \<open>read\<close>.
  The digest of the example environment is a stand-in that returns the bytes of its
  input.\<close>
record world =
  now :: int
  consumed :: "string list"
  persisted :: "token list"

definition demo_env :: "world env" where
  "demo_env =
     \<lparr> is_vschar = (\<lambda>s. CHR '' '' \<notin> set s),
       is_uri = (\<lambda>v. case v of None \<Rightarrow> False | Some s \<Rightarrow> take 8 s = ''https://''),
       sha256 = map of_char,
       Date_now = now \<rparr>"

definition demo_client :: client where
  "demo_client = \<lparr> client_id = ''client-A'' \<rparr>"

definition demo_code :: "string authorization_code" where
  "demo_code =
     \<lparr> authorizationCode = ''abc123'',
       expiresAt = Some (Date (Some 2000)),
       redirectUri = Some ''https://app.example/cb'',
       scope = Some ''read write'',
       client = Some demo_client,
       user = Some ''alice'',
       codeChallenge = None,
       codeChallengeMethod = None \<rparr>"

text \<open>The revocation of the store: true for a code that has not been consumed; the
  code is consumed either way.\<close>

definition demo_revoke :: "string authorization_code \<Rightarrow> (bool, world) callee" where
  "demo_revoke ac w =
     (Inr (authorizationCode ac \<notin> set (consumed w)),
      w\<lparr>consumed := authorizationCode ac # consumed w\<rparr>)"

definition demo_model :: "string authorization_code \<Rightarrow> (string, world) model" where
  "demo_model stored =
     \<lparr> m_getAuthorizationCode = Function (\<lambda>cstr w.
         (Inr (if cstr = authorizationCode stored then Some stored else None), w)),
       m_revokeAuthorizationCode = Function demo_revoke,
       m_saveToken = Function (\<lambda>tok cl usr w. (Inr tok, w\<lparr>persisted := tok # persisted w\<rparr>)) \<rparr>"

definition demo_grant :: "string authorization_code \<Rightarrow> (string, world) grant" where
  "demo_grant stored =
     \<lparr> model = Some (demo_model stored),
       validateScope = (\<lambda>usr cl sc w. (Inr (Some ''read''), w)),
       generateAccessToken = (\<lambda>cl usr sc w. (Inr ''access-1'', w)),
       generateRefreshToken = (\<lambda>cl usr sc w. (Inr ''refresh-1'', w)),
       getAccessTokenExpiresAt = (\<lambda>w. Date (Some (now w + 3600))),
       getRefreshTokenExpiresAt = (\<lambda>w. Date (Some (now w + 86400))) \<rparr>"

definition demo_request :: request where
  "demo_request =
     \<lparr> body = \<lparr> code = Some ''abc123'', code_verifier = None,
                redirect_uri = Some ''https://app.example/cb'' \<rparr>,
       query = \<lparr> code = None, code_verifier = None, redirect_uri = None \<rparr> \<rparr>"

definition demo_world :: world where
  "demo_world = \<lparr> now = 1000, consumed = [], persisted = [] \<rparr>"

text \<open>A constructor of the base class that keeps the model of the options.\<close>

definition demo_super :: "(string, world) options \<Rightarrow> error + (string, world) grant" where
  "demo_super opts =
     Inr \<lparr> model = opt_model opts,
           validateScope = (\<lambda>usr cl sc w. (Inr (Some ''read''), w)),
           generateAccessToken = (\<lambda>cl usr sc w. (Inr ''access-1'', w)),
           generateRefreshToken = (\<lambda>cl usr sc w. (Inr ''refresh-1'', w)),
           getAccessTokenExpiresAt = (\<lambda>w. Date (Some (now w + 3600))),
           getRefreshTokenExpiresAt = (\<lambda>w. Date (Some (now w + 86400))) \<rparr>"

text \<open>The token that the example grant issues for \<open>demo_code\<close> when the clock reads 1000.\<close>

definition demo_token :: token where
  "demo_token =
     \<lparr> accessToken = ''access-1'', token_authorizationCode = ''abc123'',
       accessTokenExpiresAt = Date (Some 4600), refreshToken = ''refresh-1'',
       refreshTokenExpiresAt = Date (Some 87400), token_scope = Some ''read'' \<rparr>"

text \<open>The code of the example bound to a PKCE challenge: the unpadded URL-safe base64
  of the stand-in digest of \<^verbatim>\<open>verifier-xyz\<close>.\<close>

definition demo_pkce_code :: "string authorization_code" where
  "demo_pkce_code =
     demo_code\<lparr> codeChallenge := Some ''dmVyaWZpZXIteHl6'',
                codeChallengeMethod := Some ''S256'' \<rparr>"

definition demo_pkce_request :: "string \<Rightarrow> request" where
  "demo_pkce_request verifier =
     \<lparr> body = \<lparr> code = Some ''abc123'', code_verifier = Some verifier,
                redirect_uri = Some ''https://app.example/cb'' \<rparr>,
       query = \<lparr> code = None, code_verifier = None, redirect_uri = None \<rparr> \<rparr>"

text \<open>The request of the example with other redirect URIs in its body and its query.\<close>

definition demo_redirect_request :: "string option \<Rightarrow> string option \<Rightarrow> request" where
  "demo_redirect_request b q =
     \<lparr> body = \<lparr> code = Some ''abc123'', code_verifier = None, redirect_uri = b \<rparr>,
       query = \<lparr> code = None, code_verifier = None, redirect_uri = q \<rparr> \<rparr>"

text \<open>The store of the example with a \<open>getAuthorizationCode\<close> that is a truthy value but
  not a function, and the grant built on it.\<close>

definition demo_uncallable_model :: "(string, world) model" where
  "demo_uncallable_model = (demo_model demo_code)\<lparr> m_getAuthorizationCode := NotAFunction \<rparr>"

definition demo_uncallable_grant :: "(string, world) grant" where
  "demo_uncallable_grant = (demo_grant demo_code)\<lparr> model := Some demo_uncallable_model \<rparr>"


section \<open>Verification\<close>

subsection \<open>The methods, step by step\<close>

lemmas io_defs = bind_def lift_def await_def throw_def return_def

lemmas demo_defs = demo_env_def demo_client_def demo_code_def demo_model_def demo_grant_def
  demo_request_def demo_world_def demo_super_def demo_token_def demo_pkce_code_def
  demo_pkce_request_def demo_redirect_request_def demo_uncallable_model_def
  demo_uncallable_grant_def demo_revoke_def

text \<open>The encoding on the test vectors of RFC 4648, without their padding, and on bytes
  whose symbols are the two URL-safe ones.\<close>

lemma base64URLEncode_examples:
  "base64URLEncode (map of_char ''f'') = ''Zg''"
  "base64URLEncode (map of_char ''fo'') = ''Zm8''"
  "base64URLEncode (map of_char ''foo'') = ''Zm9v''"
  "base64URLEncode (map of_char ''foob'') = ''Zm9vYg''"
  "base64URLEncode [0xfb, 0xff] = ''-_8''"
  "base64URLEncode [0xfb, 0xff, 0xfe] = ''-__-''"
  by (simp_all add: base64url_symbol_def base64url_alphabet_def)

lemmas run_defs = handle_def getAuthorizationCode_def getAuthorizationCode_checks_def
  validateRedirectUri_def
  revokeAuthorizationCode_def saveToken_def pkce_hash_def model_method_def truthy_def js_or_def
  time_less_def Let_def

lemma handle_unfold:
  "handle env this (Some req) (Some cl) w =
     (case getAuthorizationCode env this req cl w of
        (Inl e, w1, t1) \<Rightarrow> (Inl e, w1, t1)
      | (Inr ac, w1, t1) \<Rightarrow>
          (case validateRedirectUri env req ac of
             Inl e \<Rightarrow> (Inl e, w1, t1)
           | Inr _ \<Rightarrow>
               (case revokeAuthorizationCode this ac w1 of
                  (Inl e, w2, t2) \<Rightarrow> (Inl e, w2, t1 @ t2)
                | (Inr _, w2, t2) \<Rightarrow>
                    (case saveToken this (user ac) cl (authorizationCode ac) (scope ac) w2 of
                       (r, w3, t3) \<Rightarrow> (r, w3, t1 @ t2 @ t3)))))"
  by (simp add: handle_def bind_def lift_def split: sum.splits prod.splits)

lemma handle_no_request:
  "handle env this None cl_opt w = (Inl (InvalidArgumentError ''Missing parameter: `request`''), w, [])"
  by (simp add: handle_def throw_def)

lemma handle_no_client:
  "handle env this (Some req) None w =
     (Inl (InvalidArgumentError ''Missing parameter: `client`''), w, [])"
  by (simp add: handle_def throw_def)

lemma revoke_unfold:
  "revokeAuthorizationCode this ac w =
     (case model_method this m_revokeAuthorizationCode ''revokeAuthorizationCode'' of
        Inl e \<Rightarrow> (Inl e, w, [])
      | Inr f \<Rightarrow>
          (case f ac w of
             (Inl x, w1) \<Rightarrow> (Inl (Thrown x), w1, [Call_revokeAuthorizationCode ac (Inl x)])
           | (Inr status, w1) \<Rightarrow>
               (if status then Inr ac
                else Inl (InvalidGrantError ''Invalid grant: authorization code is invalid''),
                w1, [Call_revokeAuthorizationCode ac (Inr status)])))"
  by (simp add: revokeAuthorizationCode_def io_defs split: sum.splits prod.splits)

text \<open>The runs of \<open>saveToken\<close>: the calls it makes, in order, up to the first one that
  throws.\<close>

lemma saveToken_cases:
  assumes "saveToken this usr cl authCode sc w = (r, w', tr)"
  shows "(\<exists>x. tr = [Call_validateScope usr cl sc (Inl x)] \<and> r = Inl (Thrown x)) \<or>
    (\<exists>s x. tr = [Call_validateScope usr cl sc (Inr s),
                  Call_generateAccessToken cl usr sc (Inl x)] \<and> r = Inl (Thrown x)) \<or>
    (\<exists>s a x. tr = [Call_validateScope usr cl sc (Inr s),
                    Call_generateAccessToken cl usr sc (Inr a),
                    Call_generateRefreshToken cl usr sc (Inl x)] \<and> r = Inl (Thrown x)) \<or>
    (\<exists>s a b msg. tr = [Call_validateScope usr cl sc (Inr s),
                    Call_generateAccessToken cl usr sc (Inr a),
                    Call_generateRefreshToken cl usr sc (Inr b)] \<and> r = Inl (TypeError msg) \<and>
                  model_method this m_saveToken ''saveToken'' = Inl (TypeError msg)) \<or>
    (\<exists>s a b tok x. tr = [Call_validateScope usr cl sc (Inr s),
                    Call_generateAccessToken cl usr sc (Inr a),
                    Call_generateRefreshToken cl usr sc (Inr b),
                    Call_saveToken tok cl usr (Inl x)] \<and>
                  token_scope tok = s \<and> token_authorizationCode tok = authCode \<and>
                  r = Inl (Thrown x)) \<or>
    (\<exists>s a b tok saved. tr = [Call_validateScope usr cl sc (Inr s),
                    Call_generateAccessToken cl usr sc (Inr a),
                    Call_generateRefreshToken cl usr sc (Inr b),
                    Call_saveToken tok cl usr (Inr saved)] \<and>
                  token_scope tok = s \<and> token_authorizationCode tok = authCode \<and>
                  r = Inr saved)"
  using assms
  by (auto simp: saveToken_def io_defs model_method_def Let_def
      split: sum.splits prod.splits option.splits capability.splits)


text \<open>The runs of \<open>getAuthorizationCode\<close>: it makes at most one call, the lookup, and
  it returns the fetched record itself, only after every check on it has passed.\<close>

lemma getAuthorizationCode_fetched:
  assumes "fetches env this req w cstr ac w1"
  shows "getAuthorizationCode env this req cl w =
     (getAuthorizationCode_checks env req cl w1 ac, w1,
      [Call_getAuthorizationCode cstr (Inr (Some ac))])"
  using assms
  by (auto simp: getAuthorizationCode_def fetches_def io_defs split: sum.splits)

lemma getAuthorizationCode_cases:
  assumes "getAuthorizationCode env this req cl w = (r, w1, tr)"
  shows "(tr = [] \<and> (is_InvalidRequestError r \<or> is_TypeError r)) \<or>
    (\<exists>cstr x. tr = [Call_getAuthorizationCode cstr (Inl x)] \<and> r = Inl (Thrown x)) \<or>
    (\<exists>cstr. tr = [Call_getAuthorizationCode cstr (Inr None)] \<and>
       r = Inl (InvalidGrantError ''Invalid grant: authorization code is invalid'')) \<or>
    (\<exists>cstr ac. fetches env this req w cstr ac w1 \<and>
       tr = [Call_getAuthorizationCode cstr (Inr (Some ac))] \<and>
       r = getAuthorizationCode_checks env req cl w1 ac)"
  using assms
  by (auto simp: getAuthorizationCode_def fetches_def io_defs model_method_def
        is_InvalidRequestError_def is_TypeError_def
      split: sum.splits option.splits capability.splits if_splits prod.splits)

lemma getAuthorizationCode_checks_Inr:
  assumes "getAuthorizationCode_checks env req cl w ac = Inr ac'"
  shows "ac' = ac \<and> passes_record_checks env cl (Date_now env w) ac"
  using assms
  by (auto simp: getAuthorizationCode_checks_def passes_record_checks_def
      split: sum.splits option.splits capability.splits if_splits)

lemma getAuthorizationCode_trace:
  assumes "getAuthorizationCode env this req cl w = (r, w1, tr)"
  shows "tr = [] \<or> (\<exists>cstr res. tr = [Call_getAuthorizationCode cstr res])"
  using getAuthorizationCode_cases [OF assms] by auto

lemma getAuthorizationCode_Inr:
  assumes "getAuthorizationCode env this req cl w = (Inr ac, w1, tr)"
  shows "\<exists>cstr. fetches env this req w cstr ac w1 \<and>
           tr = [Call_getAuthorizationCode cstr (Inr (Some ac))] \<and>
           passes_record_checks env cl (Date_now env w1) ac"
proof -
  from getAuthorizationCode_cases [OF assms] obtain cstr ac0 where
    f: "fetches env this req w cstr ac0 w1"
    and t: "tr = [Call_getAuthorizationCode cstr (Inr (Some ac0))]"
    and c: "getAuthorizationCode_checks env req cl w1 ac0 = Inr ac"
    by (auto simp: is_InvalidRequestError_def is_TypeError_def)
  from getAuthorizationCode_checks_Inr [OF c] f t show ?thesis by auto
qed

text \<open>The runs of \<open>revokeAuthorizationCode\<close>.\<close>

lemma revoke_cases:
  assumes "revokeAuthorizationCode this ac w = (r, w', tr)"
  shows "(tr = [] \<and> (\<exists>msg. r = Inl (TypeError msg) \<and>
       model_method this m_revokeAuthorizationCode ''revokeAuthorizationCode'' =
         Inl (TypeError msg))) \<or>
    (\<exists>x. tr = [Call_revokeAuthorizationCode ac (Inl x)] \<and> r = Inl (Thrown x)) \<or>
    (tr = [Call_revokeAuthorizationCode ac (Inr False)] \<and>
       r = Inl (InvalidGrantError ''Invalid grant: authorization code is invalid'')) \<or>
    (tr = [Call_revokeAuthorizationCode ac (Inr True)] \<and> r = Inr ac)"
  using assms
  by (auto simp: revoke_unfold model_method_def split: sum.splits prod.splits option.splits capability.splits if_splits)

text \<open>The runs of \<open>handle\<close>, by the step at which they end.\<close>

lemma handle_cases [consumes 1, case_names early thrown refused issuing]:
  assumes run: "handle env this request cl_opt w = (r, w', tr)"
  obtains
    (early) e where "r = Inl e"
      and "tr = [] \<or> (\<exists>cstr res. tr = [Call_getAuthorizationCode cstr res])"
  | (thrown) cstr ac x where "r = Inl (Thrown x)"
      and "tr = [Call_getAuthorizationCode cstr (Inr (Some ac)),
                 Call_revokeAuthorizationCode ac (Inl x)]"
  | (refused) cstr ac where
      "r = Inl (InvalidGrantError ''Invalid grant: authorization code is invalid'')"
      and "tr = [Call_getAuthorizationCode cstr (Inr (Some ac)),
                 Call_revokeAuthorizationCode ac (Inr False)]"
  | (issuing) cl cstr ac w2 t3 where "cl_opt = Some cl"
      and "tr = Call_getAuthorizationCode cstr (Inr (Some ac)) #
                Call_revokeAuthorizationCode ac (Inr True) # t3"
      and "saveToken this (user ac) cl (authorizationCode ac) (scope ac) w2 = (r, w', t3)"
proof (cases request)
  case None
  with run have "r = Inl (InvalidArgumentError ''Missing parameter: `request`'')" and "tr = []"
    by (simp_all add: handle_no_request)
  then show ?thesis using early by blast
next
  case (Some req)
  show ?thesis
  proof (cases cl_opt)
    case None
    with Some run have "r = Inl (InvalidArgumentError ''Missing parameter: `client`'')"
      and "tr = []"
      by (simp_all add: handle_no_client)
    then show ?thesis using early by blast
  next
    case cl: (Some cl)
    obtain r1 w1 t1 where g: "getAuthorizationCode env this req cl w = (r1, w1, t1)"
      using prod_cases3 by blast
    note tr1 = getAuthorizationCode_trace [OF g]
    from run Some cl have run': "handle env this (Some req) (Some cl) w = (r, w', tr)"
      by simp
    show ?thesis
    proof (cases r1)
      case (Inl e)
      with run' g have "r = Inl e" and "tr = t1"
        by (simp_all add: handle_unfold)
      with tr1 show ?thesis using early by blast
    next
      case (Inr ac)
      with g have g': "getAuthorizationCode env this req cl w = (Inr ac, w1, t1)"
        by simp
      from getAuthorizationCode_Inr [OF g'] obtain cstr where
        t1: "t1 = [Call_getAuthorizationCode cstr (Inr (Some ac))]"
        by blast
      show ?thesis
      proof (cases "validateRedirectUri env req ac")
        case e: (Inl e)
        with run' g Inr have "r = Inl e" and "tr = t1"
          by (simp_all add: handle_unfold)
        with t1 show ?thesis using early by blast
      next
        case u: (Inr u)
        obtain r2 w2 t2 where rv: "revokeAuthorizationCode this ac w1 = (r2, w2, t2)"
          using prod_cases3 by blast
        show ?thesis
        proof (cases r2)
          case e2: (Inl e2)
          with run' g Inr u rv have r: "r = Inl e2" and tr: "tr = t1 @ t2"
            by (simp_all add: handle_unfold)
          from revoke_cases [OF rv] e2 consider
            "t2 = []"
            | x where "t2 = [Call_revokeAuthorizationCode ac (Inl x)]" and "e2 = Thrown x"
            | "t2 = [Call_revokeAuthorizationCode ac (Inr False)]"
              and "e2 = InvalidGrantError ''Invalid grant: authorization code is invalid''"
            by blast
          then show ?thesis
          proof cases
            case 1
            with r tr t1 show ?thesis using early by simp
          next
            case 2
            with r tr t1 show ?thesis using thrown by simp
          next
            case 3
            with r tr t1 show ?thesis using refused by simp
          qed
        next
          case ok: (Inr ac')
          with revoke_cases [OF rv] have t2: "t2 = [Call_revokeAuthorizationCode ac (Inr True)]"
            by blast
          obtain r3 w3 t3 where
            sv: "saveToken this (user ac) cl (authorizationCode ac) (scope ac) w2 = (r3, w3, t3)"
            using prod_cases3 by blast
          with run' g Inr u rv ok have "r = r3" and "w' = w3" and "tr = t1 @ t2 @ t3"
            by (simp_all add: handle_unfold)
          with t1 t2 sv cl show ?thesis using issuing by simp
        qed
      qed
    qed
  qed
qed


subsection \<open>The redirect URI\<close>

text \<open>
  C6. \<open>validateRedirectUri\<close> does nothing when the record stores no redirect URI (the
  stored value is \<^verbatim>\<open>undefined\<close>, \<^verbatim>\<open>null\<close> or empty). Otherwise it takes
  \<^verbatim>\<open>request.body.redirect_uri || request.query.redirect_uri\<close> and returns normally if
  and only if that value is a valid URI and equal to the stored one; in every other
  case it throws an \<open>InvalidRequestError\<close>. It never throws an \<open>InvalidGrantError\<close>.
\<close>

theorem validateRedirectUri_checks_request_uri:
  "(\<not> truthy (redirectUri ac) \<longrightarrow> validateRedirectUri env req ac = Inr ()) \<and>
   (truthy (redirectUri ac) \<longrightarrow>
      (validateRedirectUri env req ac = Inr () \<longleftrightarrow>
         is_uri env (js_or (redirect_uri (body req)) (redirect_uri (query req))) \<and>
         js_or (redirect_uri (body req)) (redirect_uri (query req)) = redirectUri ac) \<and>
      (validateRedirectUri env req ac \<noteq> Inr () \<longrightarrow>
         is_InvalidRequestError (validateRedirectUri env req ac))) \<and>
   \<not> is_InvalidGrantError (validateRedirectUri env req ac)"
  by (simp add: validateRedirectUri_def Let_def is_InvalidRequestError_def
      is_InvalidGrantError_def)

text \<open>The stored URI of the example is \<^verbatim>\<open>https://app.example/cb\<close>. A request that sends
  it in the body passes, and so does one that sends it in the query only; a request
  that sends none, or another one, is refused; a record with no stored URI passes.\<close>

theorem validateRedirectUri_checks_request_uri_witness:
  "validateRedirectUri demo_env
     (demo_redirect_request (Some ''https://app.example/cb'') None) demo_code = Inr () \<and>
   validateRedirectUri demo_env
     (demo_redirect_request None (Some ''https://app.example/cb'')) demo_code = Inr () \<and>
   validateRedirectUri demo_env (demo_redirect_request None None) demo_code =
     Inl (InvalidRequestError ''Invalid request: `redirect_uri` is not a valid URI'') \<and>
   validateRedirectUri demo_env
     (demo_redirect_request (Some ''https://app.example/other'') None) demo_code =
     Inl (InvalidRequestError ''Invalid request: `redirect_uri` is invalid'') \<and>
   validateRedirectUri demo_env (demo_redirect_request None None)
     (demo_code\<lparr>redirectUri := None\<rparr>) = Inr ()"
proof -
  have s: "truthy (redirectUri demo_code)"
    and n: "\<not> truthy (redirectUri (demo_code\<lparr>redirectUri := None\<rparr>))"
    by (simp_all add: demo_code_def truthy_def)
  have u: "redirectUri demo_code = Some ''https://app.example/cb''"
    by (simp add: demo_code_def)
  have r: "js_or (redirect_uri (body (demo_redirect_request b q)))
      (redirect_uri (query (demo_redirect_request b q))) = (if truthy b then b else q)" for b q
    by (simp add: demo_redirect_request_def js_or_def)
  have v: "is_uri demo_env (Some ''https://app.example/cb'')"
    "is_uri demo_env (Some ''https://app.example/other'')" "\<not> is_uri demo_env None"
    by (simp_all add: demo_env_def)
  have t: "truthy (Some ''https://app.example/cb'')" "truthy (Some ''https://app.example/other'')"
    "\<not> truthy None"
    by (simp_all add: truthy_def)
  from s n
    validateRedirectUri_checks_request_uri [of demo_code demo_env
      "demo_redirect_request (Some ''https://app.example/cb'') None"]
    validateRedirectUri_checks_request_uri [of demo_code demo_env
      "demo_redirect_request None (Some ''https://app.example/cb'')"]
    validateRedirectUri_checks_request_uri [of demo_code demo_env
      "demo_redirect_request None None"]
    validateRedirectUri_checks_request_uri [of demo_code demo_env
      "demo_redirect_request (Some ''https://app.example/other'') None"]
    validateRedirectUri_checks_request_uri [of "demo_code\<lparr>redirectUri := None\<rparr>" demo_env
      "demo_redirect_request None None"]
  show ?thesis
    by (simp add: r u v t is_InvalidRequestError_def validateRedirectUri_def Let_def)
qed

subsection \<open>The constructor\<close>













subsection \<open>Issuing the token\<close>



text \<open>
  C8. Whenever \<open>handle\<close> returns, it has made six calls: the lookup, which returned a
  record; the revocation of that record, which returned true; scope validation and the
  two generators, on the user, client and scope of the record; and the model's
  \<open>saveToken\<close>. The token handed to \<open>saveToken\<close> carries the code string of the fetched
  record in \<^verbatim>\<open>authorizationCode\<close> and the scope that scope validation returned in
  \<^verbatim>\<open>scope\<close>.
\<close>

theorem handle_token_carries_code_and_scope:
  assumes "handle env this request cl_opt w = (Inr saved, w', tr)"
  shows "\<exists>cl cstr ac resolved a b tok.
    cl_opt = Some cl \<and>
    tr = [Call_getAuthorizationCode cstr (Inr (Some ac)),
          Call_revokeAuthorizationCode ac (Inr True),
          Call_validateScope (user ac) cl (scope ac) (Inr resolved),
          Call_generateAccessToken cl (user ac) (scope ac) (Inr a),
          Call_generateRefreshToken cl (user ac) (scope ac) (Inr b),
          Call_saveToken tok cl (user ac) (Inr saved)] \<and>
    token_authorizationCode tok = authorizationCode ac \<and>
    token_scope tok = resolved"
  using assms
proof (cases rule: handle_cases)
  case (issuing cl cstr ac w2 t3)
  from saveToken_cases [OF issuing(3)] obtain resolved a b tok where
    "t3 = [Call_validateScope (user ac) cl (scope ac) (Inr resolved),
           Call_generateAccessToken cl (user ac) (scope ac) (Inr a),
           Call_generateRefreshToken cl (user ac) (scope ac) (Inr b),
           Call_saveToken tok cl (user ac) (Inr saved)]"
    and "token_scope tok = resolved" and "token_authorizationCode tok = authorizationCode ac"
    by auto
  with issuing(1,2) show ?thesis by simp
qed simp_all

text \<open>The scenario of the spec, with the stand-in digest: the code \<^verbatim>\<open>abc123\<close> is
  exchanged, and the token handed to the store and returned refers to \<^verbatim>\<open>abc123\<close>.\<close>

theorem handle_token_carries_code_and_scope_witness:
  "handle demo_env (demo_grant demo_code) (Some demo_request) (Some demo_client) demo_world =
   (Inr demo_token,
    \<lparr> now = 1000, consumed = [''abc123''], persisted = [demo_token] \<rparr>,
    [Call_getAuthorizationCode ''abc123'' (Inr (Some demo_code)),
     Call_revokeAuthorizationCode demo_code (Inr True),
     Call_validateScope (Some ''alice'') demo_client (Some ''read write'') (Inr (Some ''read'')),
     Call_generateAccessToken demo_client (Some ''alice'') (Some ''read write'') (Inr ''access-1''),
     Call_generateRefreshToken demo_client (Some ''alice'') (Some ''read write'')
       (Inr ''refresh-1''),
     Call_saveToken demo_token demo_client (Some ''alice'') (Inr demo_token)]) \<and>
   token_authorizationCode demo_token = authorizationCode demo_code \<and>
   token_scope demo_token = Some ''read''"
proof -
  have run: "handle demo_env (demo_grant demo_code) (Some demo_request) (Some demo_client)
      demo_world =
   (Inr demo_token,
    \<lparr> now = 1000, consumed = [''abc123''], persisted = [demo_token] \<rparr>,
    [Call_getAuthorizationCode ''abc123'' (Inr (Some demo_code)),
     Call_revokeAuthorizationCode demo_code (Inr True),
     Call_validateScope (Some ''alice'') demo_client (Some ''read write'') (Inr (Some ''read'')),
     Call_generateAccessToken demo_client (Some ''alice'') (Some ''read write'') (Inr ''access-1''),
     Call_generateRefreshToken demo_client (Some ''alice'') (Some ''read write'')
       (Inr ''refresh-1''),
     Call_saveToken demo_token demo_client (Some ''alice'') (Inr demo_token)])"
    by (simp add: demo_defs run_defs io_defs)
  from handle_token_carries_code_and_scope [OF run] run show ?thesis
    by (simp add: demo_token_def demo_code_def)
qed

subsection \<open>Revocation comes first\<close>

text \<open>The method that the example grant calls to revoke a code is the revocation of the
  example store.\<close>

lemma demo_revoke_method:
  "model_method (demo_grant stored) m_revokeAuthorizationCode ''revokeAuthorizationCode'' =
     Inr demo_revoke"
  by (simp add: model_method_def demo_grant_def demo_model_def)

text \<open>
  C1. In every run of \<open>handle\<close>: once \<open>getAuthorizationCode\<close> has returned a record and
  the redirect URI has passed, the model's \<open>revokeAuthorizationCode\<close> is called on that
  record, in the world that the validation has left, and the run goes on from the world
  that the revocation leaves. If the revocation throws, \<open>handle\<close> throws the same. If it
  returns false, \<open>handle\<close> throws the \<open>InvalidGrantError\<close> and makes no further call: the
  world at the end is the one the revocation has left. If it returns true, the rest of
  the run is \<open>saveToken\<close>, started in the world the revocation has left, on the user,
  code string and scope of the record. Every call that issues or persists a token (the
  two generators and the model's \<open>saveToken\<close>) comes after a revocation of the fetched
  record that returned true; a run in which the revocation returned false contains no
  such call.
\<close>

theorem handle_revokes_before_issuing:
  assumes run: "handle env this request cl_opt w = (r, w', tr)"
  shows "(\<forall>req cl ac w1 t1 f.
      request = Some req \<longrightarrow> cl_opt = Some cl \<longrightarrow>
      getAuthorizationCode env this req cl w = (Inr ac, w1, t1) \<longrightarrow>
      validateRedirectUri env req ac = Inr () \<longrightarrow>
      model_method this m_revokeAuthorizationCode ''revokeAuthorizationCode'' = Inr f \<longrightarrow>
        (\<forall>x w2. f ac w1 = (Inl x, w2) \<longrightarrow>
           r = Inl (Thrown x) \<and> w' = w2 \<and>
           tr = t1 @ [Call_revokeAuthorizationCode ac (Inl x)]) \<and>
        (\<forall>w2. f ac w1 = (Inr False, w2) \<longrightarrow>
           r = Inl (InvalidGrantError ''Invalid grant: authorization code is invalid'') \<and>
           w' = w2 \<and> tr = t1 @ [Call_revokeAuthorizationCode ac (Inr False)]) \<and>
        (\<forall>w2. f ac w1 = (Inr True, w2) \<longrightarrow>
           (\<exists>t3. saveToken this (user ac) cl (authorizationCode ac) (scope ac) w2 =
                   (r, w', t3) \<and>
                 tr = t1 @ Call_revokeAuthorizationCode ac (Inr True) # t3))) \<and>
    (\<forall>e \<in> set tr. issues_token e \<longrightarrow>
       (\<exists>cstr ac rest.
          tr = Call_getAuthorizationCode cstr (Inr (Some ac)) #
               Call_revokeAuthorizationCode ac (Inr True) # rest \<and> e \<in> set rest)) \<and>
    (\<forall>ac. Call_revokeAuthorizationCode ac (Inr False) \<in> set tr \<longrightarrow>
       r = Inl (InvalidGrantError ''Invalid grant: authorization code is invalid'') \<and>
       (\<forall>e \<in> set tr. \<not> issues_token e))"
proof (intro conjI allI impI ballI)
  fix req cl ac w1 t1 f x w2
  assume h: "request = Some req" "cl_opt = Some cl"
    "getAuthorizationCode env this req cl w = (Inr ac, w1, t1)"
    "validateRedirectUri env req ac = Inr ()"
    "model_method this m_revokeAuthorizationCode ''revokeAuthorizationCode'' = Inr f"
    and f: "f ac w1 = (Inl x, w2)"
  from run h have run': "handle env this (Some req) (Some cl) w = (r, w', tr)" by simp
  from run' h f show "r = Inl (Thrown x)" and "w' = w2"
    and "tr = t1 @ [Call_revokeAuthorizationCode ac (Inl x)]"
    by (simp_all add: handle_unfold revoke_unfold)
next
  fix req cl ac w1 t1 f w2
  assume h: "request = Some req" "cl_opt = Some cl"
    "getAuthorizationCode env this req cl w = (Inr ac, w1, t1)"
    "validateRedirectUri env req ac = Inr ()"
    "model_method this m_revokeAuthorizationCode ''revokeAuthorizationCode'' = Inr f"
    and f: "f ac w1 = (Inr False, w2)"
  from run h have run': "handle env this (Some req) (Some cl) w = (r, w', tr)" by simp
  from run' h f
  show "r = Inl (InvalidGrantError ''Invalid grant: authorization code is invalid'')"
    and "w' = w2" and "tr = t1 @ [Call_revokeAuthorizationCode ac (Inr False)]"
    by (simp_all add: handle_unfold revoke_unfold)
next
  fix req cl ac w1 t1 f w2
  assume h: "request = Some req" "cl_opt = Some cl"
    "getAuthorizationCode env this req cl w = (Inr ac, w1, t1)"
    "validateRedirectUri env req ac = Inr ()"
    "model_method this m_revokeAuthorizationCode ''revokeAuthorizationCode'' = Inr f"
    and f: "f ac w1 = (Inr True, w2)"
  from run h have run': "handle env this (Some req) (Some cl) w = (r, w', tr)" by simp
  obtain r3 w3 t3 where
    sv: "saveToken this (user ac) cl (authorizationCode ac) (scope ac) w2 = (r3, w3, t3)"
    using prod_cases3 by blast
  with run' h f have "r = r3" and "w' = w3"
    and "tr = t1 @ Call_revokeAuthorizationCode ac (Inr True) # t3"
    by (simp_all add: handle_unfold revoke_unfold)
  with sv show "\<exists>t3. saveToken this (user ac) cl (authorizationCode ac) (scope ac) w2 =
                   (r, w', t3) \<and>
                 tr = t1 @ Call_revokeAuthorizationCode ac (Inr True) # t3"
    by simp
next
  fix e
  assume e: "e \<in> set tr" and i: "issues_token e"
  from run e i show "\<exists>cstr ac rest.
          tr = Call_getAuthorizationCode cstr (Inr (Some ac)) #
               Call_revokeAuthorizationCode ac (Inr True) # rest \<and> e \<in> set rest"
    by (cases rule: handle_cases) auto
next
  fix ac
  assume a: "Call_revokeAuthorizationCode ac (Inr False) \<in> set tr"
  from run a show "r = Inl (InvalidGrantError ''Invalid grant: authorization code is invalid'')"
  proof (cases rule: handle_cases)
    case (issuing cl cstr ac' w2 t3)
    with saveToken_cases [OF issuing(3)] a show ?thesis by auto
  qed auto
  fix e
  assume e: "e \<in> set tr"
  from run a e show "\<not> issues_token e"
  proof (cases rule: handle_cases)
    case (issuing cl cstr ac' w2 t3)
    with saveToken_cases [OF issuing(3)] a show ?thesis by auto
  qed auto
qed

text \<open>Two exchanges of the code \<^verbatim>\<open>abc123\<close>, one after the other. The first returns a
  token and leaves a store in which the code is consumed: \<open>saveToken\<close> has run in the
  world that the revocation left. The second starts in the world the first has left:
  the revocation returns false, \<open>handle\<close> throws, and the store holds no second token.\<close>

theorem handle_revokes_before_issuing_witness:
  "handle demo_env (demo_grant demo_code) (Some demo_request) (Some demo_client) demo_world =
   (Inr demo_token,
    \<lparr> now = 1000, consumed = [''abc123''], persisted = [demo_token] \<rparr>,
    [Call_getAuthorizationCode ''abc123'' (Inr (Some demo_code)),
     Call_revokeAuthorizationCode demo_code (Inr True),
     Call_validateScope (Some ''alice'') demo_client (Some ''read write'') (Inr (Some ''read'')),
     Call_generateAccessToken demo_client (Some ''alice'') (Some ''read write'') (Inr ''access-1''),
     Call_generateRefreshToken demo_client (Some ''alice'') (Some ''read write'')
       (Inr ''refresh-1''),
     Call_saveToken demo_token demo_client (Some ''alice'') (Inr demo_token)]) \<and>
   fst (saveToken (demo_grant demo_code) (Some ''alice'') demo_client ''abc123''
     (Some ''read write'') \<lparr> now = 1000, consumed = [''abc123''], persisted = [] \<rparr>) =
     Inr demo_token \<and>
   handle demo_env (demo_grant demo_code) (Some demo_request) (Some demo_client)
     \<lparr> now = 1000, consumed = [''abc123''], persisted = [demo_token] \<rparr> =
   (Inl (InvalidGrantError ''Invalid grant: authorization code is invalid''),
    \<lparr> now = 1000, consumed = [''abc123'', ''abc123''], persisted = [demo_token] \<rparr>,
    [Call_getAuthorizationCode ''abc123'' (Inr (Some demo_code)),
     Call_revokeAuthorizationCode demo_code (Inr False)])"
proof -
  have run1: "handle demo_env (demo_grant demo_code) (Some demo_request) (Some demo_client)
      demo_world =
   (Inr demo_token,
    \<lparr> now = 1000, consumed = [''abc123''], persisted = [demo_token] \<rparr>,
    [Call_getAuthorizationCode ''abc123'' (Inr (Some demo_code)),
     Call_revokeAuthorizationCode demo_code (Inr True),
     Call_validateScope (Some ''alice'') demo_client (Some ''read write'') (Inr (Some ''read'')),
     Call_generateAccessToken demo_client (Some ''alice'') (Some ''read write'') (Inr ''access-1''),
     Call_generateRefreshToken demo_client (Some ''alice'') (Some ''read write'')
       (Inr ''refresh-1''),
     Call_saveToken demo_token demo_client (Some ''alice'') (Inr demo_token)])"
    by (simp add: demo_defs run_defs io_defs)
  have run2: "handle demo_env (demo_grant demo_code) (Some demo_request) (Some demo_client)
     \<lparr> now = 1000, consumed = [''abc123''], persisted = [demo_token] \<rparr> =
   (Inl (InvalidGrantError ''Invalid grant: authorization code is invalid''),
    \<lparr> now = 1000, consumed = [''abc123'', ''abc123''], persisted = [demo_token] \<rparr>,
    [Call_getAuthorizationCode ''abc123'' (Inr (Some demo_code)),
     Call_revokeAuthorizationCode demo_code (Inr False)])"
    by (simp add: demo_defs run_defs io_defs)
  have g: "getAuthorizationCode demo_env (demo_grant demo_code) demo_request demo_client w =
      (Inr demo_code, w, [Call_getAuthorizationCode ''abc123'' (Inr (Some demo_code))])"
    if "now w = 1000" for w
    using that by (simp add: demo_defs run_defs io_defs)
  have v: "validateRedirectUri demo_env demo_request demo_code = Inr ()"
    by (simp add: demo_defs run_defs)
  have f1: "demo_revoke demo_code demo_world =
      (Inr True, \<lparr> now = 1000, consumed = [''abc123''], persisted = [] \<rparr>)"
    by (simp add: demo_defs)
  have n1: "now demo_world = 1000"
    by (simp add: demo_world_def)
  note first = handle_revokes_before_issuing [OF run1, THEN conjunct1, rule_format,
      OF refl refl g [OF n1] v demo_revoke_method, THEN conjunct2, THEN conjunct2, rule_format,
      OF f1]
  from first have s: "\<exists>t3. saveToken (demo_grant demo_code) (user demo_code) demo_client
      (authorizationCode demo_code) (scope demo_code)
      \<lparr> now = 1000, consumed = [''abc123''], persisted = [] \<rparr> =
      (Inr demo_token, \<lparr> now = 1000, consumed = [''abc123''], persisted = [demo_token] \<rparr>, t3)"
    by (elim exE conjE, intro exI)
  have d: "user demo_code = Some ''alice''" "authorizationCode demo_code = ''abc123''"
    "scope demo_code = Some ''read write''"
    by (simp_all add: demo_code_def)
  from s have s': "fst (saveToken (demo_grant demo_code) (Some ''alice'') demo_client ''abc123''
     (Some ''read write'') \<lparr> now = 1000, consumed = [''abc123''], persisted = [] \<rparr>) =
     Inr demo_token"
    unfolding d by (elim exE) simp
  show ?thesis
    by (intro conjI) (rule run1, rule s', rule run2)
qed


subsection \<open>The checks on the fetched record\<close>

lemma demo_fetches:
  "fetches demo_env (demo_grant stored) demo_request demo_world ''abc123'' stored demo_world
     \<longleftrightarrow> authorizationCode stored = ''abc123''"
  by (auto simp: fetches_def model_method_def demo_defs)

lemma demo_pkce_fetches:
  "fetches demo_env (demo_grant demo_pkce_code) (demo_pkce_request v) demo_world ''abc123''
     demo_pkce_code demo_world"
  by (simp add: fetches_def model_method_def demo_defs)

text \<open>
  C5. For a fetched record with no PKCE challenge (the stored challenge is
  \<^verbatim>\<open>undefined\<close>, \<^verbatim>\<open>null\<close> or empty): if the request supplies a verifier,
  \<open>getAuthorizationCode\<close> never returns the record, and when all the other checks pass
  it throws the \<open>InvalidGrantError\<close> of line 145; if the request supplies none and all
  the other checks pass, the record is returned.
\<close>

theorem verifier_without_challenge:
  assumes "fetches env this req w cstr ac w1" and "\<not> truthy (codeChallenge ac)"
  shows "(truthy (code_verifier (body req)) \<longrightarrow>
       (\<forall>ac'. fst (getAuthorizationCode env this req cl w) \<noteq> Inr ac') \<and>
       (passes_record_checks env cl (Date_now env w1) ac \<longrightarrow>
          getAuthorizationCode env this req cl w =
            (Inl (InvalidGrantError ''Invalid grant: code verifier is invalid''), w1,
             [Call_getAuthorizationCode cstr (Inr (Some ac))]))) \<and>
    (\<not> truthy (code_verifier (body req)) \<and>
     passes_record_checks env cl (Date_now env w1) ac \<longrightarrow>
       getAuthorizationCode env this req cl w =
         (Inr ac, w1, [Call_getAuthorizationCode cstr (Inr (Some ac))]))"
  using assms(2)
  by (auto simp: getAuthorizationCode_fetched [OF assms(1)] getAuthorizationCode_checks_def
      passes_record_checks_def split: option.splits)

theorem verifier_without_challenge_witness:
  "getAuthorizationCode demo_env (demo_grant demo_code) demo_request demo_client demo_world =
     (Inr demo_code, demo_world, [Call_getAuthorizationCode ''abc123'' (Inr (Some demo_code))]) \<and>
   getAuthorizationCode demo_env (demo_grant demo_code)
     \<lparr> body = \<lparr> code = Some ''abc123'', code_verifier = Some ''verifier-xyz'',
                redirect_uri = Some ''https://app.example/cb'' \<rparr>,
       query = \<lparr> code = None, code_verifier = None, redirect_uri = None \<rparr> \<rparr>
     demo_client demo_world =
     (Inl (InvalidGrantError ''Invalid grant: code verifier is invalid''), demo_world,
      [Call_getAuthorizationCode ''abc123'' (Inr (Some demo_code))])"
proof -
  have f: "fetches demo_env (demo_grant demo_code) demo_request demo_world ''abc123'' demo_code
      demo_world"
    by (simp add: demo_fetches) (simp add: demo_code_def)
  have c: "\<not> truthy (codeChallenge demo_code)"
    by (simp add: demo_code_def truthy_def)
  from verifier_without_challenge [OF f c, of demo_client] show ?thesis
    by (simp add: demo_defs run_defs io_defs)
qed

text \<open>
  C3. For a fetched record that passes all the checks before PKCE and carries a
  challenge with method \<^verbatim>\<open>S256\<close>, and a request that supplies a (non-empty) verifier:
  \<open>getAuthorizationCode\<close> returns the record if and only if the unpadded URL-safe base64
  of the SHA-256 digest of the verifier is the stored challenge; otherwise it throws
  the \<open>InvalidGrantError\<close> of line 140.
\<close>

theorem S256_challenge_decides:
  assumes "fetches env this req w cstr ac w1"
    and "passes_record_checks env cl (Date_now env w1) ac"
    and "truthy (codeChallenge ac)"
    and "codeChallengeMethod ac = Some ''S256''"
    and "code_verifier (body req) = Some v" and "v \<noteq> []"
  shows "getAuthorizationCode env this req cl w =
     (if codeChallenge ac = Some (base64URLEncode (sha256 env v)) then Inr ac
      else Inl (InvalidGrantError ''Invalid grant: code verifier is invalid''),
      w1, [Call_getAuthorizationCode cstr (Inr (Some ac))])"
  using assms(2-)
  by (auto simp: getAuthorizationCode_fetched [OF assms(1)] getAuthorizationCode_checks_def
      passes_record_checks_def pkce_hash_def split: option.splits)

text \<open>With the stand-in digest, the challenge of the example is the encoding of
  \<^verbatim>\<open>verifier-xyz\<close>: that verifier is accepted, and one that differs in its last
  character is refused.\<close>

theorem S256_challenge_decides_witness:
  "getAuthorizationCode demo_env (demo_grant demo_pkce_code) (demo_pkce_request ''verifier-xyz'')
     demo_client demo_world =
     (Inr demo_pkce_code, demo_world,
      [Call_getAuthorizationCode ''abc123'' (Inr (Some demo_pkce_code))]) \<and>
   getAuthorizationCode demo_env (demo_grant demo_pkce_code) (demo_pkce_request ''verifier-xyZ'')
     demo_client demo_world =
     (Inl (InvalidGrantError ''Invalid grant: code verifier is invalid''), demo_world,
      [Call_getAuthorizationCode ''abc123'' (Inr (Some demo_pkce_code))])"
proof -
  have p: "passes_record_checks demo_env demo_client (Date_now demo_env demo_world) demo_pkce_code"
    by (simp add: passes_record_checks_def demo_defs truthy_def time_less_def)
  have c: "truthy (codeChallenge demo_pkce_code)"
    and m: "codeChallengeMethod demo_pkce_code = Some ''S256''"
    by (simp_all add: demo_defs truthy_def)
  have v: "code_verifier (body (demo_pkce_request x)) = Some x" for x
    by (simp add: demo_pkce_request_def)
  have e1: "base64URLEncode (sha256 demo_env ''verifier-xyz'') = ''dmVyaWZpZXIteHl6''"
    by (simp add: demo_env_def base64url_symbol_def base64url_alphabet_def)
  have e2: "base64URLEncode (sha256 demo_env ''verifier-xyZ'') = ''dmVyaWZpZXIteHla''"
    by (simp add: demo_env_def base64url_symbol_def base64url_alphabet_def)
  have ch: "codeChallenge demo_pkce_code = Some ''dmVyaWZpZXIteHl6''"
    by (simp add: demo_defs)
  from S256_challenge_decides [OF demo_pkce_fetches p c m v, of "''verifier-xyz''"]
    S256_challenge_decides [OF demo_pkce_fetches p c m v, of "''verifier-xyZ''"]
  show ?thesis by (simp add: e1 e2 ch)
qed


text \<open>
  C2, as the code has it. For a fetched record that carries a client and a user and
  whose expiry is a valid date: if the expiry is strictly before the clock,
  \<open>getAuthorizationCode\<close> throws an \<open>InvalidGrantError\<close>, and the one of line 112 when
  the client matches; if the expiry is at or after the clock, equal included, the
  error of line 112 is not thrown.
\<close>

theorem expired_code_is_invalid_grant:
  assumes "fetches env this req w cstr ac w1"
    and "client ac = Some cc" and "user ac \<noteq> None"
    and "expiresAt ac = Some (Date (Some t))"
  shows "(t < Date_now env w1 \<longrightarrow>
       is_InvalidGrantError (fst (getAuthorizationCode env this req cl w)) \<and>
       (client_id cc = client_id cl \<longrightarrow>
          getAuthorizationCode env this req cl w =
            (Inl (InvalidGrantError ''Invalid grant: authorization code has expired''), w1,
             [Call_getAuthorizationCode cstr (Inr (Some ac))]))) \<and>
    (Date_now env w1 \<le> t \<longrightarrow>
       fst (getAuthorizationCode env this req cl w) \<noteq>
         Inl (InvalidGrantError ''Invalid grant: authorization code has expired''))"
  using assms(2-)
  by (auto simp: getAuthorizationCode_fetched [OF assms(1)] getAuthorizationCode_checks_def
      pkce_hash_def time_less_def is_InvalidGrantError_def split: option.splits)

text \<open>The clock of the example reads 1000. A code that expired at 500 is refused.\<close>

theorem expired_code_is_invalid_grant_witness:
  "getAuthorizationCode demo_env (demo_grant (demo_code\<lparr>expiresAt := Some (Date (Some 500))\<rparr>))
     demo_request demo_client demo_world =
   (Inl (InvalidGrantError ''Invalid grant: authorization code has expired''), demo_world,
    [Call_getAuthorizationCode ''abc123''
       (Inr (Some (demo_code\<lparr>expiresAt := Some (Date (Some 500))\<rparr>)))])"
proof -
  have f: "fetches demo_env (demo_grant (demo_code\<lparr>expiresAt := Some (Date (Some 500))\<rparr>))
      demo_request demo_world ''abc123'' (demo_code\<lparr>expiresAt := Some (Date (Some 500))\<rparr>)
      demo_world"
    by (simp add: demo_fetches) (simp add: demo_code_def)
  have c: "client (demo_code\<lparr>expiresAt := Some (Date (Some 500))\<rparr>) = Some demo_client"
    and u: "user (demo_code\<lparr>expiresAt := Some (Date (Some 500))\<rparr>) \<noteq> None"
    and x: "expiresAt (demo_code\<lparr>expiresAt := Some (Date (Some 500))\<rparr>) = Some (Date (Some 500))"
    by (simp_all add: demo_code_def)
  from expired_code_is_invalid_grant [OF f c u x, of demo_client] show ?thesis
    by (simp add: demo_env_def demo_world_def)
qed

text \<open>The claim as the spec states it fails on the code. A code whose expiry equals
  the clock is returned: line 110 compares with \<^verbatim>\<open><\<close>. And an expired record that
  lacks its client is a \<open>ServerError\<close>, not an \<open>InvalidGrantError\<close>: line 86 comes first.\<close>

theorem expiry_at_now_counterexample:
  "Date_now demo_env demo_world = 1000 \<and>
   getAuthorizationCode demo_env (demo_grant (demo_code\<lparr>expiresAt := Some (Date (Some 1000))\<rparr>))
     demo_request demo_client demo_world =
   (Inr (demo_code\<lparr>expiresAt := Some (Date (Some 1000))\<rparr>), demo_world,
    [Call_getAuthorizationCode ''abc123''
       (Inr (Some (demo_code\<lparr>expiresAt := Some (Date (Some 1000))\<rparr>)))]) \<and>
   fst (getAuthorizationCode demo_env
     (demo_grant (demo_code\<lparr>expiresAt := Some (Date (Some 500)), client := None\<rparr>))
     demo_request demo_client demo_world) =
   Inl (ServerError ''Server error: `getAuthorizationCode()` did not return a `client` object'')"
  by (simp add: demo_defs run_defs io_defs)










end
